theory Spec2Isabelle
  imports Main "HOL-Library.AList"
begin

section \<open>Data model\<close>

text \<open>
  A Go value of type \<open>interface{}\<close>, as far as this resource looks at it: the nil
  interface, a string, the other JSON scalars, an array, a \<open>map[string]interface{}\<close>
  and a pointer to such a map (what Create stores in \<open>Definition\<close>). A Go map is an
  association list whose keys are distinct; the order of the list is the order in which
  \<open>range\<close> visits the entries.
\<close>

datatype jv =
    JNil
  | JString string
  | JBool bool
  | JNumber int
  | JArray "jv list"
  | JMap "(string \<times> jv) list"
  | JMapPtr "(string \<times> jv) list"

text \<open>The type assertions \<open>x.(string)\<close> and \<open>x.(map[string]interface{})\<close>: \<open>None\<close> is
  the failed assertion (a panic in the one-value form, \<open>ok = false\<close> in the two-value form).\<close>

fun assert_string :: "jv \<Rightarrow> string option" where
  "assert_string (JString s) = Some s"
| "assert_string _ = None"

fun assert_map :: "jv \<Rightarrow> (string \<times> jv) list option" where
  "assert_map (JMap m) = Some m"
| "assert_map _ = None"

text \<open>\<open>m[k]\<close> on a \<open>map[string]interface{}\<close>: a missing key reads as the nil interface.\<close>

definition index_jv :: "(string \<times> jv) list \<Rightarrow> string \<Rightarrow> jv" where
  "index_jv m k = (case map_of m k of None \<Rightarrow> JNil | Some v \<Rightarrow> v)"

text \<open>\<open>m[k]\<close> on a \<open>map[string]string\<close>: a missing key reads as the empty string.\<close>

definition index_string :: "(string \<times> string) list \<Rightarrow> string \<Rightarrow> string" where
  "index_string m k = (case map_of m k of None \<Rightarrow> [] | Some v \<Rightarrow> v)"

datatype ParameterType = ParameterTypeString

text \<open>\<open>logic.WorkflowParameter\<close>, \<open>logic.WorkflowProperties\<close> and \<open>logic.Workflow\<close>, with the
  fields this resource reads or writes. A pointer field is an option, \<open>None\<close> being nil.
  \<open>Response\<close> is the status code of the HTTP response, \<open>None\<close> when there is none.\<close>

record WorkflowParameter =
  Type :: ParameterType
  Value :: jv

type_synonym parameter_map = "(string \<times> WorkflowParameter option) list"

record WorkflowProperties =
  Definition :: jv
  Parameters :: parameter_map
  AccessEndpoint :: "string option"

type_synonym autorest_Response = "nat option"

record Workflow =
  Response :: autorest_Response
  ID :: "string option"
  Name :: "string option"
  Location :: "string option"
  WorkflowProperties :: "WorkflowProperties option"
  Tags :: "(string \<times> string option) list"

text \<open>\<open>schema.ResourceData\<close>: the id and the attributes of the resource's schema. An
  attribute that is not set is \<open>None\<close>; \<open>d.Get\<close> then returns the schema's default, or the
  zero value where the schema has none.\<close>

record ResourceData =
  rd_Id :: string
  rd_name :: "string option"
  rd_location :: "string option"
  rd_resource_group_name :: "string option"
  rd_parameters :: "(string \<times> jv) list"
  rd_workflow_schema :: "string option"
  rd_workflow_version :: "string option"
  rd_tags :: "(string \<times> jv) list"
  rd_access_endpoint :: "string option"

definition default_workflow_schema :: string where
  "default_workflow_schema =
     ''https://schema.management.azure.com/providers/Microsoft.Logic/schemas/2016-06-01/workflowdefinition.json#''"

definition default_workflow_version :: string where
  "default_workflow_version = ''1.0.0.0''"

definition Get_string :: "string \<Rightarrow> string option \<Rightarrow> string" where
  "Get_string dflt a = (case a of None \<Rightarrow> dflt | Some s \<Rightarrow> s)"

datatype panic = Panic

section \<open>The mapping helpers\<close>

text \<open>The loop of \<open>expandLogicAppWorkflowParameters\<close>: \<open>output[k] = &WorkflowParameter{...}\<close>
  for each entry, panicking at the first value that is not a string.\<close>

fun expand_loop :: "(string \<times> jv) list \<Rightarrow> parameter_map \<Rightarrow> panic + parameter_map" where
  "expand_loop [] output = Inr output"
| "expand_loop ((k, v) # rest) output =
     (case assert_string v of
        None \<Rightarrow> Inl Panic
      | Some s \<Rightarrow>
          expand_loop rest
            (AList.update k (Some \<lparr>Type = ParameterTypeString, Value = JString s\<rparr>) output))"

definition expandLogicAppWorkflowParameters :: "ResourceData \<Rightarrow> panic + parameter_map" where
  "expandLogicAppWorkflowParameters d = expand_loop (rd_parameters d) []"

text \<open>The loop of \<open>flattenLogicAppWorkflowParameters\<close>: a nil entry is skipped, and
  \<open>v.Value.(string)\<close> panics on a value that is not a string.\<close>

fun flatten_loop :: "parameter_map \<Rightarrow> (string \<times> jv) list \<Rightarrow> panic + (string \<times> jv) list" where
  "flatten_loop [] output = Inr output"
| "flatten_loop ((k, None) # rest) output = flatten_loop rest output"
| "flatten_loop ((k, Some v) # rest) output =
     (case assert_string (Value v) of
        None \<Rightarrow> Inl Panic
      | Some s \<Rightarrow> flatten_loop rest (AList.update k (JString s) output))"

definition flattenLogicAppWorkflowParameters :: "parameter_map \<Rightarrow> panic + (string \<times> jv) list" where
  "flattenLogicAppWorkflowParameters input = flatten_loop input []"

text \<open>A configuration map whose values are all strings, and the well-formedness of an
  association list as a Go map.\<close>

definition string_valued :: "(string \<times> jv) list \<Rightarrow> bool" where
  "string_valued m = list_all (\<lambda>(k, v). assert_string v \<noteq> None) m"

definition distinct_keys :: "(string \<times> 'v) list \<Rightarrow> bool" where
  "distinct_keys m = distinct (map fst m)"

definition tag_string :: "(string \<times> jv) list \<Rightarrow> parameter_map" where
  "tag_string m = map (\<lambda>(k, v). (k, Some \<lparr>Type = ParameterTypeString, Value = v\<rparr>)) m"

section \<open>The remote client and the provider runtime\<close>

text \<open>An error value of another package (the SDK's, the runtime's), opaque to this file.\<close>

datatype go_error = GoError string

text \<open>The result of \<open>parseAzureResourceID\<close>, with the two fields the handlers read.\<close>

record ResourceID =
  ResourceGroup :: string
  Path :: "(string \<times> string) list"

text \<open>The errors the handlers build with \<open>fmt.Errorf\<close>, one constructor for each format
  string, with the arguments it is given; \<open>Returned\<close> is an error handed on as it came
  (\<open>return err\<close> after \<open>parseAzureResourceID\<close>).\<close>

datatype errorf =
    ErrorCreating string string go_error
  | ErrorMakingReadRequest string string go_error
  | CannotReadID string string
  | WorkflowPropertiesIsNil
  | ErrorUpdating string string go_error
  | ErrorFlattening go_error
  | ErrorIssuingDelete string string go_error

datatype error = Returned go_error | Errorf errorf

text \<open>What a handler does: return nil, return an error, or panic.\<close>

datatype outcome = Success | Failure error | Panicked

text \<open>What a handler does to the outside, in order: the remote calls with their arguments,
  and the named lock taken and released.\<close>

datatype event =
    LockByName string string
  | UnlockByName string string
  | CreateOrUpdateCall string string Workflow
  | GetCall string string
  | DeleteCall string string

text \<open>\<open>meta\<close>: the state of the remote side, of any type \<open>'w\<close>, and the events so far.\<close>

record 'w ArmClient =
  world :: 'w
  trace :: "event list"

text \<open>
  The functions the handlers call and this file does not define. The three client calls
  take the remote state and return the new one beside Go's pair of result and error.
  \<open>ResponseWasNotFound\<close> is the not-found classification of a response;
  \<open>SetParameters\<close> is the error, if any, of \<open>d.Set("parameters", _)\<close>;
  \<open>flattenTags\<close> is the map that \<open>flattenAndSetTags\<close> stores in \<open>tags\<close>.
\<close>

record 'w environment =
  parseAzureResourceID :: "string \<Rightarrow> go_error + ResourceID"
  azureRMNormalizeLocation :: "string \<Rightarrow> string"
  expandTags :: "(string \<times> jv) list \<Rightarrow> (string \<times> string option) list"
  flattenTags :: "(string \<times> string option) list \<Rightarrow> (string \<times> jv) list"
  ResponseWasNotFound :: "autorest_Response \<Rightarrow> bool"
  SetParameters :: "(string \<times> jv) list \<Rightarrow> go_error option"
  CreateOrUpdate :: "string \<Rightarrow> string \<Rightarrow> Workflow \<Rightarrow> 'w \<Rightarrow> (Workflow \<times> go_error option) \<times> 'w"
  Get :: "string \<Rightarrow> string \<Rightarrow> 'w \<Rightarrow> (Workflow \<times> go_error option) \<times> 'w"
  Delete :: "string \<Rightarrow> string \<Rightarrow> 'w \<Rightarrow> (autorest_Response \<times> go_error option) \<times> 'w"

definition logicAppResourceName :: string where
  "logicAppResourceName = ''azurerm_logic_app''"

definition record_event :: "event \<Rightarrow> 'w ArmClient \<Rightarrow> 'w ArmClient" where
  "record_event e meta = meta\<lparr>trace := trace meta @ [e]\<rparr>"

definition client_CreateOrUpdate ::
  "'w environment \<Rightarrow> string \<Rightarrow> string \<Rightarrow> Workflow \<Rightarrow> 'w ArmClient
   \<Rightarrow> (Workflow \<times> go_error option) \<times> 'w ArmClient" where
  "client_CreateOrUpdate env resourceGroup name properties meta =
     (case CreateOrUpdate env resourceGroup name properties (world meta) of
        (r, w) \<Rightarrow>
          (r, \<lparr>world = w, trace = trace meta @ [CreateOrUpdateCall resourceGroup name properties]\<rparr>))"

definition client_Get ::
  "'w environment \<Rightarrow> string \<Rightarrow> string \<Rightarrow> 'w ArmClient
   \<Rightarrow> (Workflow \<times> go_error option) \<times> 'w ArmClient" where
  "client_Get env resourceGroup name meta =
     (case Get env resourceGroup name (world meta) of
        (r, w) \<Rightarrow> (r, \<lparr>world = w, trace = trace meta @ [GetCall resourceGroup name]\<rparr>))"

definition client_Delete ::
  "'w environment \<Rightarrow> string \<Rightarrow> string \<Rightarrow> 'w ArmClient
   \<Rightarrow> (autorest_Response \<times> go_error option) \<times> 'w ArmClient" where
  "client_Delete env resourceGroup name meta =
     (case Delete env resourceGroup name (world meta) of
        (r, w) \<Rightarrow> (r, \<lparr>world = w, trace = trace meta @ [DeleteCall resourceGroup name]\<rparr>))"

section \<open>The handlers\<close>

text \<open>Read, the block under \<open>if props := resp.WorkflowProperties; props != nil\<close>: the
  parameters, the access endpoint, and the schema and version of the definition.\<close>

definition read_props ::
  "'w environment \<Rightarrow> WorkflowProperties \<Rightarrow> ResourceData \<Rightarrow> outcome \<times> ResourceData" where
  "read_props env props d =
     (case flattenLogicAppWorkflowParameters (Parameters props) of
        Inl _ \<Rightarrow> (Panicked, d)
      | Inr parameters \<Rightarrow>
          (case SetParameters env parameters of
             Some err \<Rightarrow> (Failure (Errorf (ErrorFlattening err)), d)
           | None \<Rightarrow>
               let d1 = d\<lparr>rd_parameters := parameters,
                          rd_access_endpoint := AccessEndpoint props\<rparr>
               in if Definition props = JNil then (Success, d1)
                  else
                    (case assert_map (Definition props) of
                       None \<Rightarrow> (Success, d1)
                     | Some v \<Rightarrow>
                         (case assert_string (index_jv v ''$schema'') of
                            None \<Rightarrow> (Panicked, d1)
                          | Some schema \<Rightarrow>
                              (case assert_string (index_jv v ''contentVersion'') of
                                 None \<Rightarrow> (Panicked, d1)
                               | Some version \<Rightarrow>
                                   (Success, d1\<lparr>rd_workflow_schema := Some schema,
                                                rd_workflow_version := Some version\<rparr>))))))"

definition resourceArmLogicAppWorkflowRead ::
  "'w environment \<Rightarrow> ResourceData \<Rightarrow> 'w ArmClient \<Rightarrow> outcome \<times> ResourceData \<times> 'w ArmClient" where
  "resourceArmLogicAppWorkflowRead env d meta =
     (case parseAzureResourceID env (rd_Id d) of
        Inl err \<Rightarrow> (Failure (Returned err), d, meta)
      | Inr rid \<Rightarrow>
          let resourceGroup = ResourceGroup rid;
              name = index_string (Path rid) ''workflows''
          in case client_Get env resourceGroup name meta of
               ((resp, Some err), meta1) \<Rightarrow>
                 if ResponseWasNotFound env (Response resp)
                 then (Success, d\<lparr>rd_Id := []\<rparr>, meta1)
                 else (Failure (Errorf (ErrorMakingReadRequest name resourceGroup err)), d, meta1)
             | ((resp, None), meta1) \<Rightarrow>
                 let d1 = d\<lparr>rd_name := Name resp, rd_resource_group_name := Some resourceGroup\<rparr>;
                     d2 = (case Location resp of
                             None \<Rightarrow> d1
                           | Some location \<Rightarrow>
                               d1\<lparr>rd_location := Some (azureRMNormalizeLocation env location)\<rparr>)
                 in case WorkflowProperties resp of
                      None \<Rightarrow> (Success, d2\<lparr>rd_tags := flattenTags env (Tags resp)\<rparr>, meta1)
                    | Some props \<Rightarrow>
                        (case read_props env props d2 of
                           (Success, d3) \<Rightarrow>
                             (Success, d3\<lparr>rd_tags := flattenTags env (Tags resp)\<rparr>, meta1)
                         | (failed, d3) \<Rightarrow> (failed, d3, meta1)))"

definition resourceArmLogicAppWorkflowCreate ::
  "'w environment \<Rightarrow> ResourceData \<Rightarrow> 'w ArmClient \<Rightarrow> outcome \<times> ResourceData \<times> 'w ArmClient" where
  "resourceArmLogicAppWorkflowCreate env d meta =
     (let name = Get_string [] (rd_name d);
          resourceGroup = Get_string [] (rd_resource_group_name d);
          location = azureRMNormalizeLocation env (Get_string [] (rd_location d))
      in case expandLogicAppWorkflowParameters d of
           Inl _ \<Rightarrow> (Panicked, d, meta)
         | Inr parameters \<Rightarrow>
             let workflowSchema = Get_string default_workflow_schema (rd_workflow_schema d);
                 workflowVersion = Get_string default_workflow_version (rd_workflow_version d);
                 tags = rd_tags d;
                 properties =
                   \<lparr>Response = None, ID = None, Name = None,
                    Location = Some location,
                    WorkflowProperties = Some
                      \<lparr>Definition = JMapPtr
                         [(''$schema'', JString workflowSchema),
                          (''contentVersion'', JString workflowVersion),
                          (''actions'', JMap []),
                          (''triggers'', JMap [])],
                       Parameters = parameters,
                       AccessEndpoint = None\<rparr>,
                    Tags = expandTags env tags\<rparr>
             in case client_CreateOrUpdate env resourceGroup name properties meta of
                  ((_, Some err), meta1) \<Rightarrow>
                    (Failure (Errorf (ErrorCreating name resourceGroup err)), d, meta1)
                | ((_, None), meta1) \<Rightarrow>
                    (case client_Get env resourceGroup name meta1 of
                       ((read, Some err), meta2) \<Rightarrow>
                         (Failure (Errorf (ErrorMakingReadRequest name resourceGroup err)), d, meta2)
                     | ((read, None), meta2) \<Rightarrow>
                         (case ID read of
                            None \<Rightarrow> (Failure (Errorf (CannotReadID name resourceGroup)), d, meta2)
                          | Some i \<Rightarrow> resourceArmLogicAppWorkflowRead env (d\<lparr>rd_Id := i\<rparr>) meta2)))"

text \<open>Update between taking the lock and the deferred release.\<close>

definition update_locked ::
  "'w environment \<Rightarrow> string \<Rightarrow> string \<Rightarrow> ResourceData \<Rightarrow> 'w ArmClient
   \<Rightarrow> outcome \<times> ResourceData \<times> 'w ArmClient" where
  "update_locked env resourceGroup name d meta =
     (case client_Get env resourceGroup name meta of
        ((read, Some err), meta1) \<Rightarrow>
          if ResponseWasNotFound env (Response read)
          then (Success, d\<lparr>rd_Id := []\<rparr>, meta1)
          else (Failure (Errorf (ErrorMakingReadRequest name resourceGroup err)), d, meta1)
      | ((read, None), meta1) \<Rightarrow>
          (case WorkflowProperties read of
             None \<Rightarrow> (Failure (Errorf WorkflowPropertiesIsNil), d, meta1)
           | Some readProps \<Rightarrow>
               let location = azureRMNormalizeLocation env (Get_string [] (rd_location d))
               in case expandLogicAppWorkflowParameters d of
                    Inl _ \<Rightarrow> (Panicked, d, meta1)
                  | Inr parameters \<Rightarrow>
                      let tags = rd_tags d;
                          properties =
                            \<lparr>Response = None, ID = None, Name = None,
                             Location = Some location,
                             WorkflowProperties = Some
                               \<lparr>Definition = Definition readProps,
                                Parameters = parameters,
                                AccessEndpoint = None\<rparr>,
                             Tags = expandTags env tags\<rparr>
                      in case client_CreateOrUpdate env resourceGroup name properties meta1 of
                           ((_, Some err), meta2) \<Rightarrow>
                             (Failure (Errorf (ErrorUpdating name resourceGroup err)), d, meta2)
                         | ((_, None), meta2) \<Rightarrow>
                             resourceArmLogicAppWorkflowRead env d meta2))"

definition resourceArmLogicAppWorkflowUpdate ::
  "'w environment \<Rightarrow> ResourceData \<Rightarrow> 'w ArmClient \<Rightarrow> outcome \<times> ResourceData \<times> 'w ArmClient" where
  "resourceArmLogicAppWorkflowUpdate env d meta =
     (case parseAzureResourceID env (rd_Id d) of
        Inl err \<Rightarrow> (Failure (Returned err), d, meta)
      | Inr rid \<Rightarrow>
          let resourceGroup = ResourceGroup rid;
              name = index_string (Path rid) ''workflows''
          in case update_locked env resourceGroup name d
                    (record_event (LockByName name logicAppResourceName) meta) of
               (result, d', meta') \<Rightarrow>
                 (result, d', record_event (UnlockByName name logicAppResourceName) meta'))"

text \<open>Delete between taking the lock and the deferred release.\<close>

definition delete_locked ::
  "'w environment \<Rightarrow> string \<Rightarrow> string \<Rightarrow> ResourceData \<Rightarrow> 'w ArmClient
   \<Rightarrow> outcome \<times> ResourceData \<times> 'w ArmClient" where
  "delete_locked env resourceGroup name d meta =
     (case client_Delete env resourceGroup name meta of
        ((resp, Some err), meta1) \<Rightarrow>
          if ResponseWasNotFound env resp then (Success, d, meta1)
          else (Failure (Errorf (ErrorIssuingDelete name resourceGroup err)), d, meta1)
      | ((resp, None), meta1) \<Rightarrow> (Success, d, meta1))"

definition resourceArmLogicAppWorkflowDelete ::
  "'w environment \<Rightarrow> ResourceData \<Rightarrow> 'w ArmClient \<Rightarrow> outcome \<times> ResourceData \<times> 'w ArmClient" where
  "resourceArmLogicAppWorkflowDelete env d meta =
     (case parseAzureResourceID env (rd_Id d) of
        Inl err \<Rightarrow> (Failure (Returned err), d, meta)
      | Inr rid \<Rightarrow>
          let resourceGroup = ResourceGroup rid;
              name = index_string (Path rid) ''workflows''
          in case delete_locked env resourceGroup name d
                    (record_event (LockByName name logicAppResourceName) meta) of
               (result, d', meta') \<Rightarrow>
                 (result, d', record_event (UnlockByName name logicAppResourceName) meta'))"

text \<open>The create-or-update requests of a trace, oldest first.\<close>

fun createOrUpdate_requests :: "event list \<Rightarrow> (string \<times> string \<times> Workflow) list" where
  "createOrUpdate_requests [] = []"
| "createOrUpdate_requests (CreateOrUpdateCall rg n w # es) = (rg, n, w) # createOrUpdate_requests es"
| "createOrUpdate_requests (_ # es) = createOrUpdate_requests es"

text \<open>The fetches of a trace, oldest first.\<close>

fun Get_calls :: "event list \<Rightarrow> (string \<times> string) list" where
  "Get_calls [] = []"
| "Get_calls (GetCall rg n # es) = (rg, n) # Get_calls es"
| "Get_calls (_ # es) = Get_calls es"

text \<open>An outcome that is one of the errors the handlers build with \<open>fmt.Errorf\<close>.\<close>

fun is_Errorf :: "outcome \<Rightarrow> bool" where
  "is_Errorf (Failure (Errorf _)) = True"
| "is_Errorf _ = False"

text \<open>The events that are calls of the remote client, and the events one call of a handler
  adds to the trace.\<close>

fun is_remote_call :: "event \<Rightarrow> bool" where
  "is_remote_call (CreateOrUpdateCall _ _ _) = True"
| "is_remote_call (GetCall _ _) = True"
| "is_remote_call (DeleteCall _ _) = True"
| "is_remote_call _ = False"

definition emitted ::
  "'w ArmClient \<Rightarrow> outcome \<times> ResourceData \<times> 'w ArmClient \<Rightarrow> event list" where
  "emitted meta result = drop (length (trace meta)) (trace (snd (snd result)))"

section \<open>The named lock\<close>

text \<open>
  Modelled from the spec: \<open>azureRMLockByName\<close> and \<open>azureRMUnlockByName\<close> are not among the
  sources. The spec describes them as a process-wide mutual-exclusion primitive keyed by a
  string, here the pair of the name and the resource name the handlers pass. A sequence of
  events of concurrently running handlers respects the lock when no key is taken while it
  is held; releasing a key frees it. \<open>held\<close> lists the keys held so far.
\<close>

fun mutex_admissible :: "(string \<times> string) list \<Rightarrow> event list \<Rightarrow> bool" where
  "mutex_admissible held [] = True"
| "mutex_admissible held (LockByName n r # es) =
     ((n, r) \<notin> set held \<and> mutex_admissible ((n, r) # held) es)"
| "mutex_admissible held (UnlockByName n r # es) = mutex_admissible (removeAll (n, r) held) es"
| "mutex_admissible held (_ # es) = mutex_admissible held es"

section \<open>An in-memory remote side\<close>

text \<open>A small remote side on which the handlers can be run: a store of workflows by
  resource group and name, and an outage switch that makes every call fail with the given
  status code. Creating assigns the id and the name and stores the definition as the
  decoded JSON object; a missing workflow is answered with status 404 and an error.\<close>

record fake_world =
  store :: "((string \<times> string) \<times> Workflow) list"
  outage :: "nat option"

definition no_workflow :: Workflow where
  "no_workflow = \<lparr>Response = None, ID = None, Name = None, Location = None,
                   WorkflowProperties = None, Tags = []\<rparr>"

definition fake_id :: "string \<Rightarrow> string \<Rightarrow> string" where
  "fake_id rg n = ''/resourceGroups/'' @ rg @ ''/workflows/'' @ n"

definition resource_id1 :: ResourceID where
  "resource_id1 = \<lparr>ResourceGroup = ''rg1'', Path = [(''workflows'', ''wf1'')]\<rparr>"

definition fake_parse :: "string \<Rightarrow> go_error + ResourceID" where
  "fake_parse s =
     (if s = fake_id ''rg1'' ''wf1'' then Inr resource_id1 else Inl (GoError ''cannot parse''))"

fun decoded :: "jv \<Rightarrow> jv" where
  "decoded (JMapPtr m) = JMap m"
| "decoded v = v"

definition fake_CreateOrUpdate ::
  "string \<Rightarrow> string \<Rightarrow> Workflow \<Rightarrow> fake_world \<Rightarrow> (Workflow \<times> go_error option) \<times> fake_world" where
  "fake_CreateOrUpdate rg n wfl w =
     (case outage w of
        Some code \<Rightarrow> ((no_workflow\<lparr>Response := Some code\<rparr>, Some (GoError ''unavailable'')), w)
      | None \<Rightarrow>
          let stored = wfl\<lparr>Response := Some 200, ID := Some (fake_id rg n), Name := Some n,
                          WorkflowProperties :=
                            map_option (\<lambda>p. p\<lparr>Definition := decoded (Definition p)\<rparr>)
                              (WorkflowProperties wfl)\<rparr>
          in ((stored, None), w\<lparr>store := AList.update (rg, n) stored (store w)\<rparr>))"

definition fake_Get ::
  "string \<Rightarrow> string \<Rightarrow> fake_world \<Rightarrow> (Workflow \<times> go_error option) \<times> fake_world" where
  "fake_Get rg n w =
     (case outage w of
        Some code \<Rightarrow> ((no_workflow\<lparr>Response := Some code\<rparr>, Some (GoError ''unavailable'')), w)
      | None \<Rightarrow>
          (case map_of (store w) (rg, n) of
             None \<Rightarrow> ((no_workflow\<lparr>Response := Some 404\<rparr>, Some (GoError ''not found'')), w)
           | Some wfl \<Rightarrow> ((wfl, None), w)))"

definition fake_Delete ::
  "string \<Rightarrow> string \<Rightarrow> fake_world \<Rightarrow> (autorest_Response \<times> go_error option) \<times> fake_world" where
  "fake_Delete rg n w =
     (case outage w of
        Some code \<Rightarrow> ((Some code, Some (GoError ''unavailable'')), w)
      | None \<Rightarrow>
          (case map_of (store w) (rg, n) of
             None \<Rightarrow> ((Some 404, Some (GoError ''not found'')), w)
           | Some wfl \<Rightarrow> ((Some 200, None), w\<lparr>store := AList.delete (rg, n) (store w)\<rparr>)))"

definition fake_env :: "fake_world environment" where
  "fake_env =
     \<lparr>parseAzureResourceID = fake_parse,
      azureRMNormalizeLocation = filter (\<lambda>c. c \<noteq> CHR '' ''),
      expandTags = map (\<lambda>(k, v). (k, assert_string v)),
      flattenTags = map (\<lambda>(k, v). (k, JString (Get_string [] v))),
      ResponseWasNotFound = (\<lambda>r. r = Some 404),
      SetParameters = (\<lambda>_. None),
      CreateOrUpdate = fake_CreateOrUpdate,
      Get = fake_Get,
      Delete = fake_Delete\<rparr>"

definition config1 :: ResourceData where
  "config1 =
     \<lparr>rd_Id = fake_id ''rg1'' ''wf1'', rd_name = Some ''wf1'', rd_location = Some ''west us'',
      rd_resource_group_name = Some ''rg1'', rd_parameters = [(''p1'', JString ''v1'')],
      rd_workflow_schema = None, rd_workflow_version = None, rd_tags = [],
      rd_access_endpoint = None\<rparr>"

definition remote_wf1 :: "jv \<Rightarrow> Workflow" where
  "remote_wf1 definition =
     \<lparr>Response = Some 200, ID = Some (fake_id ''rg1'' ''wf1''), Name = Some ''wf1'',
      Location = Some ''westus'',
      WorkflowProperties = Some \<lparr>Definition = definition, Parameters = [], AccessEndpoint = None\<rparr>,
      Tags = []\<rparr>"

definition definition1 :: jv where
  "definition1 =
     JMap [(''$schema'', JString default_workflow_schema),
           (''contentVersion'', JString ''1.0.0.0''),
           (''actions'', JMap [(''send'', JMap [(''type'', JString ''Http'')])]),
           (''triggers'', JMap [])]"

definition request1 :: Workflow where
  "request1 =
     \<lparr>Response = None, ID = None, Name = None, Location = Some ''westus'',
      WorkflowProperties = Some
        \<lparr>Definition = JMapPtr
           [(''$schema'', JString default_workflow_schema),
            (''contentVersion'', JString ''1.0.0.0''),
            (''actions'', JMap []),
            (''triggers'', JMap [])],
         Parameters = [(''p1'', Some \<lparr>Type = ParameterTypeString, Value = JString ''v1''\<rparr>)],
         AccessEndpoint = None\<rparr>,
      Tags = []\<rparr>"

definition stored1 :: Workflow where
  "stored1 =
     \<lparr>Response = Some 200, ID = Some (fake_id ''rg1'' ''wf1''), Name = Some ''wf1'',
      Location = Some ''westus'',
      WorkflowProperties = Some
        \<lparr>Definition = JMap
           [(''$schema'', JString default_workflow_schema),
            (''contentVersion'', JString ''1.0.0.0''),
            (''actions'', JMap []),
            (''triggers'', JMap [])],
         Parameters = [(''p1'', Some \<lparr>Type = ParameterTypeString, Value = JString ''v1''\<rparr>)],
         AccessEndpoint = None\<rparr>,
      Tags = []\<rparr>"

definition world_with :: "Workflow \<Rightarrow> fake_world ArmClient" where
  "world_with wfl = \<lparr>world = \<lparr>store = [((''rg1'', ''wf1''), wfl)], outage = None\<rparr>, trace = []\<rparr>"

definition world_empty :: "fake_world ArmClient" where
  "world_empty = \<lparr>world = \<lparr>store = [], outage = None\<rparr>, trace = []\<rparr>"

definition world_down :: "fake_world ArmClient" where
  "world_down = \<lparr>world = \<lparr>store = [], outage = Some 500\<rparr>, trace = []\<rparr>"

text \<open>A remote side that answers a given number of fetches with the stored workflow and
  fails every later fetch with status 500; its state is the number of fetches it still
  answers. Creating and deleting always succeed.\<close>

definition flaky_Get :: "string \<Rightarrow> string \<Rightarrow> nat \<Rightarrow> (Workflow \<times> go_error option) \<times> nat" where
  "flaky_Get rg n k =
     (if k = 0 then ((no_workflow\<lparr>Response := Some 500\<rparr>, Some (GoError ''unavailable'')), 0)
      else ((stored1, None), k - 1))"

definition flaky_env :: "nat environment" where
  "flaky_env =
     \<lparr>parseAzureResourceID = fake_parse,
      azureRMNormalizeLocation = filter (\<lambda>c. c \<noteq> CHR '' ''),
      expandTags = map (\<lambda>(k, v). (k, assert_string v)),
      flattenTags = map (\<lambda>(k, v). (k, JString (Get_string [] v))),
      ResponseWasNotFound = (\<lambda>r. r = Some 404),
      SetParameters = (\<lambda>_. None),
      CreateOrUpdate = (\<lambda>rg n wfl k. ((stored1, None), k)),
      Get = flaky_Get,
      Delete = (\<lambda>rg n k. ((Some 200, None), k))\<rparr>"

section \<open>Properties of the mapping helpers\<close>

lemma update_fresh: "k \<notin> fst ` set al \<Longrightarrow> AList.update k v al = al @ [(k, v)]"
  by (induction al) auto

lemma expand_loop_tag:
  "string_valued m \<Longrightarrow> distinct (map fst acc @ map fst m) \<Longrightarrow>
   expand_loop m acc = Inr (acc @ tag_string m)"
proof (induction m arbitrary: acc)
  case Nil
  then show ?case by (simp add: tag_string_def)
next
  case (Cons p m)
  obtain k v where p: "p = (k, v)" by (cases p)
  from Cons.prems(1) p obtain s where s: "v = JString s"
    by (cases v) (auto simp: string_valued_def)
  from Cons.prems(2) p have fresh: "k \<notin> fst ` set acc" by auto
  have sv: "string_valued m" using Cons.prems(1) by (simp add: string_valued_def)
  have d: "distinct (map fst (acc @ [(k, Some \<lparr>Type = ParameterTypeString, Value = v\<rparr>)])
                     @ map fst m)"
    using Cons.prems(2) p by auto
  show ?case
    using Cons.IH [OF sv d] p s fresh by (simp add: update_fresh tag_string_def)
qed

lemma flatten_loop_tag:
  "string_valued m \<Longrightarrow> distinct (map fst (acc @ m)) \<Longrightarrow>
   flatten_loop (tag_string m) acc = Inr (acc @ m)"
proof (induction m arbitrary: acc)
  case Nil
  then show ?case by (simp add: tag_string_def)
next
  case (Cons p m)
  obtain k v where p: "p = (k, v)" by (cases p)
  from Cons.prems(1) p obtain s where s: "v = JString s"
    by (cases v) (auto simp: string_valued_def)
  from Cons.prems(2) p have fresh: "k \<notin> fst ` set acc" by auto
  have sv: "string_valued m" using Cons.prems(1) by (simp add: string_valued_def)
  have d: "distinct (map fst ((acc @ [(k, v)]) @ m))"
    using Cons.prems(2) p by auto
  have "flatten_loop (tag_string (p # m)) acc = flatten_loop (tag_string m) (acc @ [(k, v)])"
    using p s fresh by (simp add: update_fresh tag_string_def)
  then show ?case
    using Cons.IH [OF sv d] p by simp
qed

lemma expand_string_valued:
  "string_valued (rd_parameters d) \<Longrightarrow> distinct_keys (rd_parameters d) \<Longrightarrow>
   expandLogicAppWorkflowParameters d = Inr (tag_string (rd_parameters d))"
  using expand_loop_tag [of "rd_parameters d" "[]"]
  by (simp add: expandLogicAppWorkflowParameters_def distinct_keys_def)

text \<open>
  C2. For a configuration whose \<open>parameters\<close> map is a Go map (distinct keys) with string
  values only, \<open>expandLogicAppWorkflowParameters\<close> returns a parameter map, and
  \<open>flattenLogicAppWorkflowParameters\<close> of that parameter map returns the configured map
  again.
\<close>

theorem flatten_expand_roundtrip:
  assumes "string_valued (rd_parameters d)" and "distinct_keys (rd_parameters d)"
  shows "\<exists>ps. expandLogicAppWorkflowParameters d = Inr ps
             \<and> flattenLogicAppWorkflowParameters ps = Inr (rd_parameters d)"
proof -
  have e: "expandLogicAppWorkflowParameters d = Inr (tag_string (rd_parameters d))"
    using assms by (rule expand_string_valued)
  have "flatten_loop (tag_string (rd_parameters d)) [] = Inr ([] @ rd_parameters d)"
    using assms by (intro flatten_loop_tag) (simp_all add: distinct_keys_def)
  then show ?thesis
    using e by (simp add: flattenLogicAppWorkflowParameters_def)
qed

theorem flatten_expand_roundtrip_witness:
  "string_valued (rd_parameters config1) \<and> distinct_keys (rd_parameters config1)
   \<and> (\<exists>ps. expandLogicAppWorkflowParameters config1 = Inr ps
            \<and> flattenLogicAppWorkflowParameters ps = Inr (rd_parameters config1))"
proof -
  have h1: "string_valued (rd_parameters config1)"
    by (simp add: config1_def string_valued_def)
  have h2: "distinct_keys (rd_parameters config1)"
    by (simp add: config1_def distinct_keys_def)
  show ?thesis
    using flatten_expand_roundtrip [OF h1 h2] h1 h2 by simp
qed

section \<open>Properties of the handlers\<close>

lemma createOrUpdate_requests_append:
  "createOrUpdate_requests (xs @ ys) = createOrUpdate_requests xs @ createOrUpdate_requests ys"
  by (induction xs rule: createOrUpdate_requests.induct) simp_all

lemma Read_trace:
  "trace (snd (snd (resourceArmLogicAppWorkflowRead env d meta))) = trace meta
   \<or> (\<exists>rg n. trace (snd (snd (resourceArmLogicAppWorkflowRead env d meta)))
               = trace meta @ [GetCall rg n])"
  by (auto simp: resourceArmLogicAppWorkflowRead_def client_Get_def Let_def
           split: sum.splits prod.splits option.splits outcome.splits)

lemma Read_requests:
  "createOrUpdate_requests (trace (snd (snd (resourceArmLogicAppWorkflowRead env d meta))))
   = createOrUpdate_requests (trace meta)"
  using Read_trace [of env d meta] by (auto simp: createOrUpdate_requests_append)

lemma fake_parse_config1: "parseAzureResourceID fake_env (rd_Id config1) = Inr resource_id1"
  by (simp add: fake_env_def fake_parse_def config1_def)

text \<open>
  C5. Read, when the stored id parses and the fetch returns an error: if the response is
  classified as not found, Read sets the id to the empty string and returns nil; for every
  other error it returns the "Error making Read request" error built from name, resource
  group and the client's error, and the resource data, id included, is unchanged. Either way
  the fetch is the only remote call.
\<close>

theorem Read_fetch_error:
  assumes "parseAzureResourceID env (rd_Id d) = Inr rid"
    and "Get env (ResourceGroup rid) (index_string (Path rid) ''workflows'') (world meta)
           = ((resp, Some err), w)"
  shows "resourceArmLogicAppWorkflowRead env d meta =
           (if ResponseWasNotFound env (Response resp)
            then (Success, d\<lparr>rd_Id := []\<rparr>,
                  \<lparr>world = w,
                   trace = trace meta
                     @ [GetCall (ResourceGroup rid) (index_string (Path rid) ''workflows'')]\<rparr>)
            else (Failure (Errorf (ErrorMakingReadRequest
                                     (index_string (Path rid) ''workflows'')
                                     (ResourceGroup rid) err)),
                  d,
                  \<lparr>world = w,
                   trace = trace meta
                     @ [GetCall (ResourceGroup rid) (index_string (Path rid) ''workflows'')]\<rparr>))"
  using assms by (simp add: resourceArmLogicAppWorkflowRead_def client_Get_def Let_def)

theorem Read_fetch_error_witness:
  "parseAzureResourceID fake_env (rd_Id config1) = Inr resource_id1
   \<and> Get fake_env (ResourceGroup resource_id1) (index_string (Path resource_id1) ''workflows'')
         (world world_down)
       = ((no_workflow\<lparr>Response := Some 500\<rparr>, Some (GoError ''unavailable'')), world world_down)
   \<and> resourceArmLogicAppWorkflowRead fake_env config1 world_down
       = (Failure (Errorf (ErrorMakingReadRequest ''wf1'' ''rg1'' (GoError ''unavailable''))),
          config1,
          \<lparr>world = world world_down, trace = [GetCall ''rg1'' ''wf1'']\<rparr>)"
proof -
  have h2: "Get fake_env (ResourceGroup resource_id1)
              (index_string (Path resource_id1) ''workflows'') (world world_down)
            = ((no_workflow\<lparr>Response := Some 500\<rparr>, Some (GoError ''unavailable'')),
               world world_down)"
    by (simp add: fake_env_def fake_Get_def world_down_def)
  show ?thesis
    using Read_fetch_error [OF fake_parse_config1 h2] fake_parse_config1 h2
    by (simp add: fake_env_def no_workflow_def resource_id1_def index_string_def world_down_def)
qed

text \<open>
  C6. Update, when the stored id parses and the fetch before the update returns an error: if
  the response is classified as not found, Update sets the id to the empty string and
  returns nil; otherwise it returns the "Error making Read request" error and leaves the
  resource data unchanged. In both cases the trace is lock, fetch, unlock: no
  create-or-update request is sent.
\<close>

theorem Update_fetch_error:
  assumes "parseAzureResourceID env (rd_Id d) = Inr rid"
    and "Get env (ResourceGroup rid) (index_string (Path rid) ''workflows'') (world meta)
           = ((read, Some err), w)"
  shows "resourceArmLogicAppWorkflowUpdate env d meta =
           (if ResponseWasNotFound env (Response read) then Success
            else Failure (Errorf (ErrorMakingReadRequest
                                    (index_string (Path rid) ''workflows'')
                                    (ResourceGroup rid) err)),
            if ResponseWasNotFound env (Response read) then d\<lparr>rd_Id := []\<rparr> else d,
            \<lparr>world = w,
             trace = trace meta
               @ [LockByName (index_string (Path rid) ''workflows'') logicAppResourceName,
                  GetCall (ResourceGroup rid) (index_string (Path rid) ''workflows''),
                  UnlockByName (index_string (Path rid) ''workflows'') logicAppResourceName]\<rparr>)
         \<and> createOrUpdate_requests
               (trace (snd (snd (resourceArmLogicAppWorkflowUpdate env d meta))))
             = createOrUpdate_requests (trace meta)"
  using assms
  by (simp add: resourceArmLogicAppWorkflowUpdate_def update_locked_def client_Get_def
        record_event_def Let_def createOrUpdate_requests_append)

theorem Update_fetch_error_witness:
  "parseAzureResourceID fake_env (rd_Id config1) = Inr resource_id1
   \<and> Get fake_env (ResourceGroup resource_id1) (index_string (Path resource_id1) ''workflows'')
         (world world_empty)
       = ((no_workflow\<lparr>Response := Some 404\<rparr>, Some (GoError ''not found'')), world world_empty)
   \<and> resourceArmLogicAppWorkflowUpdate fake_env config1 world_empty
       = (Success, config1\<lparr>rd_Id := []\<rparr>,
          \<lparr>world = world world_empty,
           trace = [LockByName ''wf1'' ''azurerm_logic_app'', GetCall ''rg1'' ''wf1'',
                    UnlockByName ''wf1'' ''azurerm_logic_app'']\<rparr>)"
proof -
  have h2: "Get fake_env (ResourceGroup resource_id1)
              (index_string (Path resource_id1) ''workflows'') (world world_empty)
            = ((no_workflow\<lparr>Response := Some 404\<rparr>, Some (GoError ''not found'')),
               world world_empty)"
    by (simp add: fake_env_def fake_Get_def world_empty_def)
  show ?thesis
    using Update_fetch_error [OF fake_parse_config1 h2] fake_parse_config1 h2
    by (simp add: fake_env_def no_workflow_def resource_id1_def index_string_def world_empty_def
          logicAppResourceName_def)
qed

text \<open>
  C7. Delete, when the stored id parses and the remote delete returns an error: if the
  response is classified as not found, Delete returns nil; otherwise it returns the "Error
  issuing delete request" error built from name, resource group and the client's error. The
  resource data is unchanged and the trace is lock, delete, unlock.
\<close>

theorem Delete_error:
  assumes "parseAzureResourceID env (rd_Id d) = Inr rid"
    and "Delete env (ResourceGroup rid) (index_string (Path rid) ''workflows'') (world meta)
           = ((resp, Some err), w)"
  shows "resourceArmLogicAppWorkflowDelete env d meta =
           (if ResponseWasNotFound env resp then Success
            else Failure (Errorf (ErrorIssuingDelete
                                    (index_string (Path rid) ''workflows'')
                                    (ResourceGroup rid) err)),
            d,
            \<lparr>world = w,
             trace = trace meta
               @ [LockByName (index_string (Path rid) ''workflows'') logicAppResourceName,
                  DeleteCall (ResourceGroup rid) (index_string (Path rid) ''workflows''),
                  UnlockByName (index_string (Path rid) ''workflows'') logicAppResourceName]\<rparr>)"
  using assms
  by (simp add: resourceArmLogicAppWorkflowDelete_def delete_locked_def client_Delete_def
        record_event_def Let_def)

theorem Delete_error_witness:
  "parseAzureResourceID fake_env (rd_Id config1) = Inr resource_id1
   \<and> Delete fake_env (ResourceGroup resource_id1) (index_string (Path resource_id1) ''workflows'')
         (world world_empty)
       = ((Some 404, Some (GoError ''not found'')), world world_empty)
   \<and> resourceArmLogicAppWorkflowDelete fake_env config1 world_empty
       = (Success, config1,
          \<lparr>world = world world_empty,
           trace = [LockByName ''wf1'' ''azurerm_logic_app'', DeleteCall ''rg1'' ''wf1'',
                    UnlockByName ''wf1'' ''azurerm_logic_app'']\<rparr>)"
proof -
  have h2: "Delete fake_env (ResourceGroup resource_id1)
              (index_string (Path resource_id1) ''workflows'') (world world_empty)
            = ((Some 404, Some (GoError ''not found'')), world world_empty)"
    by (simp add: fake_env_def fake_Delete_def world_empty_def)
  show ?thesis
    using Delete_error [OF fake_parse_config1 h2] fake_parse_config1 h2
    by (simp add: fake_env_def resource_id1_def index_string_def world_empty_def
          logicAppResourceName_def)
qed

text \<open>
  C10. Update, when the stored id parses and the fetch before the update succeeds with an
  object whose \<open>WorkflowProperties\<close> is nil: Update returns the "`WorkflowProperties` is nil"
  error, the resource data, id included, is unchanged, and the trace is lock, fetch, unlock:
  no create-or-update request is sent.
\<close>

theorem Update_nil_WorkflowProperties:
  assumes "parseAzureResourceID env (rd_Id d) = Inr rid"
    and "Get env (ResourceGroup rid) (index_string (Path rid) ''workflows'') (world meta)
           = ((read, None), w)"
    and "WorkflowProperties read = None"
  shows "resourceArmLogicAppWorkflowUpdate env d meta =
           (Failure (Errorf WorkflowPropertiesIsNil), d,
            \<lparr>world = w,
             trace = trace meta
               @ [LockByName (index_string (Path rid) ''workflows'') logicAppResourceName,
                  GetCall (ResourceGroup rid) (index_string (Path rid) ''workflows''),
                  UnlockByName (index_string (Path rid) ''workflows'') logicAppResourceName]\<rparr>)
         \<and> createOrUpdate_requests
               (trace (snd (snd (resourceArmLogicAppWorkflowUpdate env d meta))))
             = createOrUpdate_requests (trace meta)"
  using assms
  by (simp add: resourceArmLogicAppWorkflowUpdate_def update_locked_def client_Get_def
        record_event_def Let_def createOrUpdate_requests_append)

theorem Update_nil_WorkflowProperties_witness:
  "parseAzureResourceID fake_env (rd_Id config1) = Inr resource_id1
   \<and> Get fake_env (ResourceGroup resource_id1) (index_string (Path resource_id1) ''workflows'')
         (world (world_with no_workflow))
       = ((no_workflow, None), world (world_with no_workflow))
   \<and> WorkflowProperties no_workflow = None
   \<and> resourceArmLogicAppWorkflowUpdate fake_env config1 (world_with no_workflow)
       = (Failure (Errorf WorkflowPropertiesIsNil), config1,
          \<lparr>world = world (world_with no_workflow),
           trace = [LockByName ''wf1'' ''azurerm_logic_app'', GetCall ''rg1'' ''wf1'',
                    UnlockByName ''wf1'' ''azurerm_logic_app'']\<rparr>)"
proof -
  have h2: "Get fake_env (ResourceGroup resource_id1)
              (index_string (Path resource_id1) ''workflows'') (world (world_with no_workflow))
            = ((no_workflow, None), world (world_with no_workflow))"
    by (simp add: fake_env_def fake_Get_def world_with_def resource_id1_def index_string_def)
  have h3: "WorkflowProperties no_workflow = None"
    by (simp add: no_workflow_def)
  show ?thesis
    using Update_nil_WorkflowProperties [OF fake_parse_config1 h2 h3] fake_parse_config1 h2 h3
    by (simp add: resource_id1_def index_string_def world_with_def logicAppResourceName_def)
qed


text \<open>
  C1. Update, when the stored id parses, the fetch before the update succeeds with an object
  that has workflow properties, and the configured parameters expand: Update sends exactly
  one create-or-update request, for the resource group and name of the id, and in it the
  definition is the definition of the fetched object, unchanged, while the location is the
  normalized configured location, the parameters are the expansion of the configured
  parameters and the tags are the expansion of the configured tags.
\<close>

theorem Update_request:
  assumes "parseAzureResourceID env (rd_Id d) = Inr rid"
    and "Get env (ResourceGroup rid) (index_string (Path rid) ''workflows'') (world meta)
           = ((read, None), w)"
    and "WorkflowProperties read = Some props"
    and "expandLogicAppWorkflowParameters d = Inr parameters"
  shows "createOrUpdate_requests
           (trace (snd (snd (resourceArmLogicAppWorkflowUpdate env d meta))))
         = createOrUpdate_requests (trace meta)
           @ [(ResourceGroup rid, index_string (Path rid) ''workflows'',
               \<lparr>Response = None, ID = None, Name = None,
                Location = Some (azureRMNormalizeLocation env (Get_string [] (rd_location d))),
                WorkflowProperties = Some
                  \<lparr>Definition = Definition props,
                   Parameters = parameters,
                   AccessEndpoint = None\<rparr>,
                Tags = expandTags env (rd_tags d)\<rparr>)]"
proof -
  let ?rg = "ResourceGroup rid" and ?name = "index_string (Path rid) ''workflows''"
  let ?properties = "\<lparr>Response = None, ID = None, Name = None,
                Location = Some (azureRMNormalizeLocation env (Get_string [] (rd_location d))),
                WorkflowProperties = Some
                  \<lparr>Definition = Definition props,
                   Parameters = parameters,
                   AccessEndpoint = None\<rparr>,
                Tags = expandTags env (rd_tags d)\<rparr>"
  let ?sent = "trace meta @ [LockByName ?name logicAppResourceName, GetCall ?rg ?name,
                             CreateOrUpdateCall ?rg ?name ?properties]"
  obtain created cerr w2 where cu: "CreateOrUpdate env ?rg ?name ?properties w = ((created, cerr), w2)"
    by (metis surj_pair)
  have locked: "createOrUpdate_requests
          (trace (snd (snd (update_locked env ?rg ?name d
             (record_event (LockByName ?name logicAppResourceName) meta)))))
        = createOrUpdate_requests ?sent"
  proof (cases cerr)
    case (Some e)
    then show ?thesis
      using assms cu
      by (simp add: update_locked_def client_Get_def client_CreateOrUpdate_def
            record_event_def Let_def)
  next
    case None
    then have "update_locked env ?rg ?name d
                 (record_event (LockByName ?name logicAppResourceName) meta)
               = resourceArmLogicAppWorkflowRead env d \<lparr>world = w2, trace = ?sent\<rparr>"
      using assms cu
      by (simp add: update_locked_def client_Get_def client_CreateOrUpdate_def
            record_event_def Let_def)
    then show ?thesis
      using Read_requests [of env d "\<lparr>world = w2, trace = ?sent\<rparr>"] by simp
  qed
  have "trace (snd (snd (resourceArmLogicAppWorkflowUpdate env d meta)))
        = trace (snd (snd (update_locked env ?rg ?name d
             (record_event (LockByName ?name logicAppResourceName) meta))))
          @ [UnlockByName ?name logicAppResourceName]"
    using assms(1)
    by (simp add: resourceArmLogicAppWorkflowUpdate_def record_event_def Let_def
          split: prod.splits)
  then show ?thesis
    using locked by (simp add: createOrUpdate_requests_append)
qed


theorem Update_request_witness:
  "parseAzureResourceID fake_env (rd_Id config1) = Inr resource_id1
   \<and> Get fake_env (ResourceGroup resource_id1) (index_string (Path resource_id1) ''workflows'')
         (world (world_with (remote_wf1 definition1)))
       = ((remote_wf1 definition1, None), world (world_with (remote_wf1 definition1)))
   \<and> WorkflowProperties (remote_wf1 definition1)
       = Some \<lparr>Definition = definition1, Parameters = [], AccessEndpoint = None\<rparr>
   \<and> expandLogicAppWorkflowParameters config1
       = Inr [(''p1'', Some \<lparr>Type = ParameterTypeString, Value = JString ''v1''\<rparr>)]
   \<and> createOrUpdate_requests
         (trace (snd (snd (resourceArmLogicAppWorkflowUpdate fake_env config1
                             (world_with (remote_wf1 definition1))))))
       = [(''rg1'', ''wf1'',
           \<lparr>Response = None, ID = None, Name = None, Location = Some ''westus'',
            WorkflowProperties = Some
              \<lparr>Definition = definition1,
               Parameters = [(''p1'', Some \<lparr>Type = ParameterTypeString, Value = JString ''v1''\<rparr>)],
               AccessEndpoint = None\<rparr>,
            Tags = []\<rparr>)]"
proof -
  have h2: "Get fake_env (ResourceGroup resource_id1)
              (index_string (Path resource_id1) ''workflows'')
              (world (world_with (remote_wf1 definition1)))
            = ((remote_wf1 definition1, None), world (world_with (remote_wf1 definition1)))"
    by (simp add: fake_env_def fake_Get_def world_with_def resource_id1_def index_string_def)
  have h3: "WorkflowProperties (remote_wf1 definition1)
            = Some \<lparr>Definition = definition1, Parameters = [], AccessEndpoint = None\<rparr>"
    by (simp add: remote_wf1_def)
  have h4: "expandLogicAppWorkflowParameters config1
            = Inr [(''p1'', Some \<lparr>Type = ParameterTypeString, Value = JString ''v1''\<rparr>)]"
    by (simp add: expandLogicAppWorkflowParameters_def config1_def)
  have "createOrUpdate_requests
          (trace (snd (snd (resourceArmLogicAppWorkflowUpdate fake_env config1
                              (world_with (remote_wf1 definition1))))))
        = [(''rg1'', ''wf1'',
            \<lparr>Response = None, ID = None, Name = None, Location = Some ''westus'',
             WorkflowProperties = Some
               \<lparr>Definition = definition1,
                Parameters = [(''p1'', Some \<lparr>Type = ParameterTypeString, Value = JString ''v1''\<rparr>)],
                AccessEndpoint = None\<rparr>,
             Tags = []\<rparr>)]"
    using Update_request [OF fake_parse_config1 h2 h3 h4]
    by (simp add: resource_id1_def index_string_def world_with_def fake_env_def config1_def
          Get_string_def)
  then show ?thesis
    using fake_parse_config1 h2 h3 h4 by blast
qed

text \<open>
  C4. Create, for a configuration whose parameters are a Go map with string values: Create
  sends exactly one create-or-update request, for the configured resource group and name. Its
  definition has the four entries \<open>$schema\<close> (the configured schema, or the default when
  none is configured), \<open>contentVersion\<close> (the configured version, or the default),
  \<open>actions\<close> and \<open>triggers\<close> (both the empty map); its parameters are the configured
  parameters, each value tagged with the string type.
\<close>

theorem Create_request:
  assumes "string_valued (rd_parameters d)" and "distinct_keys (rd_parameters d)"
  shows "createOrUpdate_requests
           (trace (snd (snd (resourceArmLogicAppWorkflowCreate env d meta))))
         = createOrUpdate_requests (trace meta)
           @ [(Get_string [] (rd_resource_group_name d), Get_string [] (rd_name d),
               \<lparr>Response = None, ID = None, Name = None,
                Location = Some (azureRMNormalizeLocation env (Get_string [] (rd_location d))),
                WorkflowProperties = Some
                  \<lparr>Definition = JMapPtr
                     [(''$schema'',
                       JString (Get_string default_workflow_schema (rd_workflow_schema d))),
                      (''contentVersion'',
                       JString (Get_string default_workflow_version (rd_workflow_version d))),
                      (''actions'', JMap []),
                      (''triggers'', JMap [])],
                   Parameters = tag_string (rd_parameters d),
                   AccessEndpoint = None\<rparr>,
                Tags = expandTags env (rd_tags d)\<rparr>)]"
proof -
  let ?rg = "Get_string [] (rd_resource_group_name d)" and ?name = "Get_string [] (rd_name d)"
  let ?properties = "\<lparr>Response = None, ID = None, Name = None,
                Location = Some (azureRMNormalizeLocation env (Get_string [] (rd_location d))),
                WorkflowProperties = Some
                  \<lparr>Definition = JMapPtr
                     [(''$schema'',
                       JString (Get_string default_workflow_schema (rd_workflow_schema d))),
                      (''contentVersion'',
                       JString (Get_string default_workflow_version (rd_workflow_version d))),
                      (''actions'', JMap []),
                      (''triggers'', JMap [])],
                   Parameters = tag_string (rd_parameters d),
                   AccessEndpoint = None\<rparr>,
                Tags = expandTags env (rd_tags d)\<rparr>"
  let ?sent = "trace meta @ [CreateOrUpdateCall ?rg ?name ?properties]"
  have e: "expandLogicAppWorkflowParameters d = Inr (tag_string (rd_parameters d))"
    using assms by (rule expand_string_valued)
  obtain created cerr w1 where cu:
    "CreateOrUpdate env ?rg ?name ?properties (world meta) = ((created, cerr), w1)"
    by (metis surj_pair)
  obtain read gerr w2 where g: "Get env ?rg ?name w1 = ((read, gerr), w2)"
    by (metis surj_pair)
  show ?thesis
  proof (cases "cerr = None \<and> gerr = None \<and> ID read \<noteq> None")
    case False
    then show ?thesis
      using e cu g
      by (auto simp: resourceArmLogicAppWorkflowCreate_def client_CreateOrUpdate_def
            client_Get_def Let_def createOrUpdate_requests_append
            split: option.splits)
  next
    case True
    then obtain i where i: "ID read = Some i" by auto
    have "resourceArmLogicAppWorkflowCreate env d meta
          = resourceArmLogicAppWorkflowRead env (d\<lparr>rd_Id := i\<rparr>)
              \<lparr>world = w2, trace = ?sent @ [GetCall ?rg ?name]\<rparr>"
      using True i e cu g
      by (simp add: resourceArmLogicAppWorkflowCreate_def client_CreateOrUpdate_def
            client_Get_def Let_def)
    then show ?thesis
      using Read_requests [of env "d\<lparr>rd_Id := i\<rparr>"
                             "\<lparr>world = w2, trace = ?sent @ [GetCall ?rg ?name]\<rparr>"]
      by (simp add: createOrUpdate_requests_append)
  qed
qed

theorem Create_request_witness:
  "string_valued (rd_parameters config1) \<and> distinct_keys (rd_parameters config1)
   \<and> createOrUpdate_requests
         (trace (snd (snd (resourceArmLogicAppWorkflowCreate fake_env config1 world_empty))))
       = [(''rg1'', ''wf1'',
           \<lparr>Response = None, ID = None, Name = None, Location = Some ''westus'',
            WorkflowProperties = Some
              \<lparr>Definition = JMapPtr
                 [(''$schema'', JString default_workflow_schema),
                  (''contentVersion'', JString ''1.0.0.0''),
                  (''actions'', JMap []),
                  (''triggers'', JMap [])],
               Parameters = [(''p1'', Some \<lparr>Type = ParameterTypeString, Value = JString ''v1''\<rparr>)],
               AccessEndpoint = None\<rparr>,
            Tags = []\<rparr>)]"
proof -
  have h1: "string_valued (rd_parameters config1)"
    by (simp add: config1_def string_valued_def)
  have h2: "distinct_keys (rd_parameters config1)"
    by (simp add: config1_def distinct_keys_def)
  show ?thesis
    using Create_request [OF h1 h2, of fake_env world_empty] h1 h2
    by (simp add: world_empty_def fake_env_def config1_def Get_string_def tag_string_def
          default_workflow_version_def)
qed

text \<open>
  C8. Read on a fetched object whose definition is a map without the string fields: with
  \<open>$schema\<close> and \<open>contentVersion\<close> absent, and with \<open>$schema\<close> present as a number, the
  one-value assertions \<open>v["$schema"].(string)\<close> and \<open>v["contentVersion"].(string)\<close> panic,
  so Read does not complete.
\<close>

theorem Read_definition_without_strings_panics:
  "fst (resourceArmLogicAppWorkflowRead fake_env config1
          (world_with (remote_wf1 (JMap [(''actions'', JMap []), (''triggers'', JMap [])]))))
   = Panicked
   \<and> fst (resourceArmLogicAppWorkflowRead fake_env config1
          (world_with (remote_wf1 (JMap [(''$schema'', JNumber 1),
                                         (''contentVersion'', JString ''1.0.0.0'')]))))
   = Panicked"
  by (simp add: resourceArmLogicAppWorkflowRead_def read_props_def client_Get_def fake_env_def
        fake_parse_def fake_Get_def config1_def world_with_def remote_wf1_def resource_id1_def
        index_string_def index_jv_def flattenLogicAppWorkflowParameters_def Let_def)


text \<open>The result of Create by cases on its two remote calls.\<close>

lemma Create_cases:
  assumes "expandLogicAppWorkflowParameters d = Inr parameters"
    and "properties =
           \<lparr>Response = None, ID = None, Name = None,
            Location = Some (azureRMNormalizeLocation env (Get_string [] (rd_location d))),
            WorkflowProperties = Some
              \<lparr>Definition = JMapPtr
                 [(''$schema'',
                   JString (Get_string default_workflow_schema (rd_workflow_schema d))),
                  (''contentVersion'',
                   JString (Get_string default_workflow_version (rd_workflow_version d))),
                  (''actions'', JMap []),
                  (''triggers'', JMap [])],
               Parameters = parameters,
               AccessEndpoint = None\<rparr>,
            Tags = expandTags env (rd_tags d)\<rparr>"
    and "CreateOrUpdate env (Get_string [] (rd_resource_group_name d)) (Get_string [] (rd_name d))
           properties (world meta) = ((created, cerr), w1)"
    and "Get env (Get_string [] (rd_resource_group_name d)) (Get_string [] (rd_name d)) w1
           = ((read, gerr), w2)"
  shows "resourceArmLogicAppWorkflowCreate env d meta =
           (case cerr of
              Some err \<Rightarrow>
                (Failure (Errorf (ErrorCreating (Get_string [] (rd_name d))
                                    (Get_string [] (rd_resource_group_name d)) err)),
                 d,
                 \<lparr>world = w1,
                  trace = trace meta
                    @ [CreateOrUpdateCall (Get_string [] (rd_resource_group_name d))
                         (Get_string [] (rd_name d)) properties]\<rparr>)
            | None \<Rightarrow>
                (case gerr of
                   Some err \<Rightarrow>
                     (Failure (Errorf (ErrorMakingReadRequest (Get_string [] (rd_name d))
                                         (Get_string [] (rd_resource_group_name d)) err)),
                      d,
                      \<lparr>world = w2,
                       trace = trace meta
                         @ [CreateOrUpdateCall (Get_string [] (rd_resource_group_name d))
                              (Get_string [] (rd_name d)) properties,
                            GetCall (Get_string [] (rd_resource_group_name d))
                              (Get_string [] (rd_name d))]\<rparr>)
                 | None \<Rightarrow>
                     (case ID read of
                        None \<Rightarrow>
                          (Failure (Errorf (CannotReadID (Get_string [] (rd_name d))
                                              (Get_string [] (rd_resource_group_name d)))),
                           d,
                           \<lparr>world = w2,
                            trace = trace meta
                              @ [CreateOrUpdateCall (Get_string [] (rd_resource_group_name d))
                                   (Get_string [] (rd_name d)) properties,
                                 GetCall (Get_string [] (rd_resource_group_name d))
                                   (Get_string [] (rd_name d))]\<rparr>)
                      | Some i \<Rightarrow>
                          resourceArmLogicAppWorkflowRead env (d\<lparr>rd_Id := i\<rparr>)
                            \<lparr>world = w2,
                             trace = trace meta
                               @ [CreateOrUpdateCall (Get_string [] (rd_resource_group_name d))
                                    (Get_string [] (rd_name d)) properties,
                                  GetCall (Get_string [] (rd_resource_group_name d))
                                    (Get_string [] (rd_name d))]\<rparr>)))"
  using assms
  by (simp add: resourceArmLogicAppWorkflowCreate_def client_CreateOrUpdate_def client_Get_def
        Let_def split: option.splits)

lemma Get_calls_append: "Get_calls (xs @ ys) = Get_calls xs @ Get_calls ys"
  by (induction xs rule: Get_calls.induct) simp_all

lemma Read_parsed_trace:
  "parseAzureResourceID env (rd_Id d) = Inr rid \<Longrightarrow>
   trace (snd (snd (resourceArmLogicAppWorkflowRead env d meta)))
   = trace meta @ [GetCall (ResourceGroup rid) (index_string (Path rid) ''workflows'')]"
  by (auto simp: resourceArmLogicAppWorkflowRead_def client_Get_def Let_def
           split: prod.splits option.splits outcome.splits)

lemma Read_Errorf_fetches:
  assumes "is_Errorf (fst (resourceArmLogicAppWorkflowRead env d meta))"
  shows "length (Get_calls (trace (snd (snd (resourceArmLogicAppWorkflowRead env d meta)))))
         = Suc (length (Get_calls (trace meta)))"
proof (cases "parseAzureResourceID env (rd_Id d)")
  case (Inl e)
  then have "fst (resourceArmLogicAppWorkflowRead env d meta) = Failure (Returned e)"
    by (simp add: resourceArmLogicAppWorkflowRead_def)
  then show ?thesis using assms by simp
next
  case (Inr rid)
  then show ?thesis
    by (simp add: Read_parsed_trace Get_calls_append)
qed

text \<open>
  C3, as amended. Create, when the configured parameters expand, by the results of its
  create-or-update call and of the fetch that follows it. Create returns one of its
  \<open>fmt.Errorf\<close> errors with no fetch made after that one, exactly when the create-or-update
  call errors, that fetch errors, or the fetched object has no id: the errors are then
  "Error creating", "Error making Read request" and "Cannot read ... ID", in this order of
  precedence, and the resource data is unchanged. In every other case Create stores the
  fetched id as the resource id and its result is the result of Read on that resource
  data, whatever Read returns.
\<close>

theorem Create_fails_exactly:
  assumes "expandLogicAppWorkflowParameters d = Inr parameters"
    and "properties =
           \<lparr>Response = None, ID = None, Name = None,
            Location = Some (azureRMNormalizeLocation env (Get_string [] (rd_location d))),
            WorkflowProperties = Some
              \<lparr>Definition = JMapPtr
                 [(''$schema'',
                   JString (Get_string default_workflow_schema (rd_workflow_schema d))),
                  (''contentVersion'',
                   JString (Get_string default_workflow_version (rd_workflow_version d))),
                  (''actions'', JMap []),
                  (''triggers'', JMap [])],
               Parameters = parameters,
               AccessEndpoint = None\<rparr>,
            Tags = expandTags env (rd_tags d)\<rparr>"
    and "CreateOrUpdate env (Get_string [] (rd_resource_group_name d)) (Get_string [] (rd_name d))
           properties (world meta) = ((created, cerr), w1)"
    and "Get env (Get_string [] (rd_resource_group_name d)) (Get_string [] (rd_name d)) w1
           = ((read, gerr), w2)"
  shows "((cerr \<noteq> None \<or> gerr \<noteq> None \<or> ID read = None)
          \<longleftrightarrow> is_Errorf (fst (resourceArmLogicAppWorkflowCreate env d meta))
              \<and> length (Get_calls (trace (snd (snd (resourceArmLogicAppWorkflowCreate env d meta)))))
                  \<le> Suc (length (Get_calls (trace meta))))
       \<and> resourceArmLogicAppWorkflowCreate env d meta =
           (case cerr of
              Some err \<Rightarrow>
                (Failure (Errorf (ErrorCreating (Get_string [] (rd_name d))
                                    (Get_string [] (rd_resource_group_name d)) err)),
                 d,
                 \<lparr>world = w1,
                  trace = trace meta
                    @ [CreateOrUpdateCall (Get_string [] (rd_resource_group_name d))
                         (Get_string [] (rd_name d)) properties]\<rparr>)
            | None \<Rightarrow>
                (case gerr of
                   Some err \<Rightarrow>
                     (Failure (Errorf (ErrorMakingReadRequest (Get_string [] (rd_name d))
                                         (Get_string [] (rd_resource_group_name d)) err)),
                      d,
                      \<lparr>world = w2,
                       trace = trace meta
                         @ [CreateOrUpdateCall (Get_string [] (rd_resource_group_name d))
                              (Get_string [] (rd_name d)) properties,
                            GetCall (Get_string [] (rd_resource_group_name d))
                              (Get_string [] (rd_name d))]\<rparr>)
                 | None \<Rightarrow>
                     (case ID read of
                        None \<Rightarrow>
                          (Failure (Errorf (CannotReadID (Get_string [] (rd_name d))
                                              (Get_string [] (rd_resource_group_name d)))),
                           d,
                           \<lparr>world = w2,
                            trace = trace meta
                              @ [CreateOrUpdateCall (Get_string [] (rd_resource_group_name d))
                                   (Get_string [] (rd_name d)) properties,
                                 GetCall (Get_string [] (rd_resource_group_name d))
                                   (Get_string [] (rd_name d))]\<rparr>)
                      | Some i \<Rightarrow>
                          resourceArmLogicAppWorkflowRead env (d\<lparr>rd_Id := i\<rparr>)
                            \<lparr>world = w2,
                             trace = trace meta
                               @ [CreateOrUpdateCall (Get_string [] (rd_resource_group_name d))
                                    (Get_string [] (rd_name d)) properties,
                                  GetCall (Get_string [] (rd_resource_group_name d))
                                    (Get_string [] (rd_name d))]\<rparr>)))"
proof -
  let ?rg = "Get_string [] (rd_resource_group_name d)" and ?name = "Get_string [] (rd_name d)"
  let ?m2 = "\<lparr>world = w2,
              trace = trace meta @ [CreateOrUpdateCall ?rg ?name properties, GetCall ?rg ?name]\<rparr>"
  note cases = Create_cases [OF assms]
  have iff: "(cerr \<noteq> None \<or> gerr \<noteq> None \<or> ID read = None)
          \<longleftrightarrow> is_Errorf (fst (resourceArmLogicAppWorkflowCreate env d meta))
              \<and> length (Get_calls (trace (snd (snd (resourceArmLogicAppWorkflowCreate env d meta)))))
                  \<le> Suc (length (Get_calls (trace meta)))"
  proof (cases "cerr \<noteq> None \<or> gerr \<noteq> None \<or> ID read = None")
    case True
    then show ?thesis
      using cases by (auto simp: Get_calls_append split: option.splits)
  next
    case False
    then obtain i where i: "cerr = None" "gerr = None" "ID read = Some i" by auto
    have run: "resourceArmLogicAppWorkflowCreate env d meta
               = resourceArmLogicAppWorkflowRead env (d\<lparr>rd_Id := i\<rparr>) ?m2"
      using cases i by simp
    have "\<not> (is_Errorf (fst (resourceArmLogicAppWorkflowRead env (d\<lparr>rd_Id := i\<rparr>) ?m2))
             \<and> length (Get_calls (trace (snd (snd
                  (resourceArmLogicAppWorkflowRead env (d\<lparr>rd_Id := i\<rparr>) ?m2)))))
                \<le> Suc (length (Get_calls (trace meta))))"
      using Read_Errorf_fetches [of env "d\<lparr>rd_Id := i\<rparr>" ?m2]
      by (auto simp: Get_calls_append)
    then have "\<not> (is_Errorf (fst (resourceArmLogicAppWorkflowCreate env d meta))
             \<and> length (Get_calls (trace (snd (snd
                  (resourceArmLogicAppWorkflowCreate env d meta)))))
                \<le> Suc (length (Get_calls (trace meta))))"
      unfolding run .
    then show ?thesis
      using False by blast
  qed
  show ?thesis
    using iff cases by blast
qed

theorem Create_fails_exactly_witness:
  "resourceArmLogicAppWorkflowCreate fake_env config1 world_down
     = (Failure (Errorf (ErrorCreating ''wf1'' ''rg1'' (GoError ''unavailable''))), config1,
        \<lparr>world = world world_down, trace = [CreateOrUpdateCall ''rg1'' ''wf1'' request1]\<rparr>)
   \<and> is_Errorf (fst (resourceArmLogicAppWorkflowCreate fake_env config1 world_down))
   \<and> resourceArmLogicAppWorkflowCreate fake_env config1 world_empty
       = resourceArmLogicAppWorkflowRead fake_env (config1\<lparr>rd_Id := fake_id ''rg1'' ''wf1''\<rparr>)
           \<lparr>world = world (world_with stored1),
            trace = [CreateOrUpdateCall ''rg1'' ''wf1'' request1, GetCall ''rg1'' ''wf1'']\<rparr>
   \<and> fst (resourceArmLogicAppWorkflowCreate fake_env config1 world_empty) = Success"
proof -
  let ?rg = "Get_string [] (rd_resource_group_name config1)"
  let ?name = "Get_string [] (rd_name config1)"
  let ?down = "(no_workflow\<lparr>Response := Some 500\<rparr>, Some (GoError ''unavailable''))"
  have h1: "expandLogicAppWorkflowParameters config1
            = Inr [(''p1'', Some \<lparr>Type = ParameterTypeString, Value = JString ''v1''\<rparr>)]"
    by (simp add: expandLogicAppWorkflowParameters_def config1_def)
  have h2: "request1 =
           \<lparr>Response = None, ID = None, Name = None,
            Location = Some (azureRMNormalizeLocation fake_env (Get_string [] (rd_location config1))),
            WorkflowProperties = Some
              \<lparr>Definition = JMapPtr
                 [(''$schema'',
                   JString (Get_string default_workflow_schema (rd_workflow_schema config1))),
                  (''contentVersion'',
                   JString (Get_string default_workflow_version (rd_workflow_version config1))),
                  (''actions'', JMap []),
                  (''triggers'', JMap [])],
               Parameters = [(''p1'', Some \<lparr>Type = ParameterTypeString, Value = JString ''v1''\<rparr>)],
               AccessEndpoint = None\<rparr>,
            Tags = expandTags fake_env (rd_tags config1)\<rparr>"
    by (simp add: request1_def fake_env_def config1_def Get_string_def
          default_workflow_version_def)
  have names: "?rg = ''rg1''" "?name = ''wf1''"
    by (simp_all add: config1_def Get_string_def)
  have d3: "CreateOrUpdate fake_env ?rg ?name request1 (world world_down)
            = (?down, world world_down)"
    by (simp add: fake_env_def fake_CreateOrUpdate_def world_down_def)
  have d4: "Get fake_env ?rg ?name (world world_down) = (?down, world world_down)"
    by (simp add: fake_env_def fake_Get_def world_down_def)
  have e3: "CreateOrUpdate fake_env ?rg ?name request1 (world world_empty)
            = ((stored1, None), world (world_with stored1))"
    by (simp add: names fake_env_def fake_CreateOrUpdate_def request1_def stored1_def
          world_empty_def world_with_def Let_def)
  have e4: "Get fake_env ?rg ?name (world (world_with stored1))
            = ((stored1, None), world (world_with stored1))"
    by (simp add: names fake_env_def fake_Get_def world_with_def)
  have i: "ID stored1 = Some (fake_id ''rg1'' ''wf1'')"
    by (simp add: stored1_def)
  have failing: "resourceArmLogicAppWorkflowCreate fake_env config1 world_down
     = (Failure (Errorf (ErrorCreating ''wf1'' ''rg1'' (GoError ''unavailable''))), config1,
        \<lparr>world = world world_down, trace = [CreateOrUpdateCall ''rg1'' ''wf1'' request1]\<rparr>)"
    using Create_fails_exactly [OF h1 h2 d3 d4] names by (simp add: world_down_def)
  have run: "resourceArmLogicAppWorkflowCreate fake_env config1 world_empty
       = resourceArmLogicAppWorkflowRead fake_env (config1\<lparr>rd_Id := fake_id ''rg1'' ''wf1''\<rparr>)
           \<lparr>world = world (world_with stored1),
            trace = [CreateOrUpdateCall ''rg1'' ''wf1'' request1, GetCall ''rg1'' ''wf1'']\<rparr>"
    using Create_fails_exactly [OF h1 h2 e3 e4] i names by (simp add: world_empty_def)
  have "fst (resourceArmLogicAppWorkflowRead fake_env (config1\<lparr>rd_Id := fake_id ''rg1'' ''wf1''\<rparr>)
           \<lparr>world = world (world_with stored1),
            trace = [CreateOrUpdateCall ''rg1'' ''wf1'' request1, GetCall ''rg1'' ''wf1'']\<rparr>)
        = Success"
    by (simp add: resourceArmLogicAppWorkflowRead_def read_props_def client_Get_def fake_env_def
        fake_parse_def fake_Get_def config1_def world_with_def stored1_def resource_id1_def
        index_string_def index_jv_def flattenLogicAppWorkflowParameters_def Let_def)
  then show ?thesis
    using failing run by simp
qed

text \<open>
  C3 as first stated does not hold: on a remote side that accepts the create-or-update,
  answers the fetch of Create with an object that has an id, and fails the next fetch, none
  of the three conditions holds, and Create still returns the "Error making Read request"
  error, from the Read it delegated to, with the id stored.
\<close>

theorem Create_error_after_delegation:
  "CreateOrUpdate flaky_env ''rg1'' ''wf1'' request1 1 = ((stored1, None), 1)
   \<and> Get flaky_env ''rg1'' ''wf1'' 1 = ((stored1, None), 0)
   \<and> ID stored1 = Some (fake_id ''rg1'' ''wf1'')
   \<and> resourceArmLogicAppWorkflowCreate flaky_env config1 \<lparr>world = 1, trace = []\<rparr>
       = (Failure (Errorf (ErrorMakingReadRequest ''wf1'' ''rg1'' (GoError ''unavailable''))),
          config1\<lparr>rd_Id := fake_id ''rg1'' ''wf1''\<rparr>,
          \<lparr>world = 0,
           trace = [CreateOrUpdateCall ''rg1'' ''wf1'' request1, GetCall ''rg1'' ''wf1'',
                    GetCall ''rg1'' ''wf1'']\<rparr>)"
  by (simp add: resourceArmLogicAppWorkflowCreate_def resourceArmLogicAppWorkflowRead_def
        client_CreateOrUpdate_def client_Get_def flaky_env_def flaky_Get_def fake_parse_def
        config1_def stored1_def request1_def resource_id1_def index_string_def
        expandLogicAppWorkflowParameters_def Get_string_def default_workflow_version_def
        no_workflow_def Let_def)


section \<open>Properties of the lock\<close>

lemma update_locked_calls:
  "\<exists>calls. trace (snd (snd (update_locked env rg n d meta))) = trace meta @ calls
           \<and> list_all is_remote_call calls"
proof -
  obtain read gerr w1 where g: "Get env rg n (world meta) = ((read, gerr), w1)"
    by (metis surj_pair)
  show ?thesis
  proof (cases "gerr = None \<and> WorkflowProperties read \<noteq> None
                \<and> (\<exists>ps. expandLogicAppWorkflowParameters d = Inr ps)")
    case False
    then have "trace (snd (snd (update_locked env rg n d meta))) = trace meta @ [GetCall rg n]"
      using g
      by (cases "expandLogicAppWorkflowParameters d")
         (auto simp: update_locked_def client_Get_def Let_def split: option.splits)
    then show ?thesis by simp
  next
    case True
    then obtain props ps where p: "gerr = None" "WorkflowProperties read = Some props"
      "expandLogicAppWorkflowParameters d = Inr ps" by auto
    let ?properties = "\<lparr>Response = None, ID = None, Name = None,
                Location = Some (azureRMNormalizeLocation env (Get_string [] (rd_location d))),
                WorkflowProperties = Some
                  \<lparr>Definition = Definition props, Parameters = ps, AccessEndpoint = None\<rparr>,
                Tags = expandTags env (rd_tags d)\<rparr>"
    let ?sent = "trace meta @ [GetCall rg n, CreateOrUpdateCall rg n ?properties]"
    obtain created cerr w2 where cu: "CreateOrUpdate env rg n ?properties w1 = ((created, cerr), w2)"
      by (metis surj_pair)
    show ?thesis
    proof (cases cerr)
      case (Some e)
      then have "trace (snd (snd (update_locked env rg n d meta))) = ?sent"
        using g p cu
        by (simp add: update_locked_def client_Get_def client_CreateOrUpdate_def Let_def)
      then show ?thesis by simp
    next
      case None
      then have run: "update_locked env rg n d meta
                 = resourceArmLogicAppWorkflowRead env d \<lparr>world = w2, trace = ?sent\<rparr>"
        using g p cu
        by (simp add: update_locked_def client_Get_def client_CreateOrUpdate_def Let_def)
      from Read_trace [of env d "\<lparr>world = w2, trace = ?sent\<rparr>"]
      show ?thesis
      proof
        assume "trace (snd (snd (resourceArmLogicAppWorkflowRead env d \<lparr>world = w2, trace = ?sent\<rparr>)))
                = trace \<lparr>world = w2, trace = ?sent\<rparr>"
        then have "trace (snd (snd (update_locked env rg n d meta)))
                   = trace meta @ [GetCall rg n, CreateOrUpdateCall rg n ?properties]"
          using run by simp
        then show ?thesis by simp
      next
        assume "\<exists>rg' n'. trace (snd (snd (resourceArmLogicAppWorkflowRead env d \<lparr>world = w2, trace = ?sent\<rparr>)))
                = trace \<lparr>world = w2, trace = ?sent\<rparr> @ [GetCall rg' n']"
        then obtain rg' n' where
          "trace (snd (snd (update_locked env rg n d meta)))
           = trace meta @ [GetCall rg n, CreateOrUpdateCall rg n ?properties, GetCall rg' n']"
          using run by auto
        then show ?thesis by simp
      qed
    qed
  qed
qed

lemma Update_emitted:
  assumes "parseAzureResourceID env (rd_Id d) = Inr rid"
  shows "\<exists>calls. emitted meta (resourceArmLogicAppWorkflowUpdate env d meta)
                  = LockByName (index_string (Path rid) ''workflows'') logicAppResourceName
                    # calls
                    @ [UnlockByName (index_string (Path rid) ''workflows'') logicAppResourceName]
                \<and> list_all is_remote_call calls"
proof -
  let ?rg = "ResourceGroup rid" and ?name = "index_string (Path rid) ''workflows''"
  let ?locked = "record_event (LockByName ?name logicAppResourceName) meta"
  obtain calls where c: "trace (snd (snd (update_locked env ?rg ?name d ?locked)))
                         = trace ?locked @ calls" "list_all is_remote_call calls"
    using update_locked_calls [of env ?rg ?name d ?locked] by blast
  have "trace (snd (snd (resourceArmLogicAppWorkflowUpdate env d meta)))
        = trace (snd (snd (update_locked env ?rg ?name d ?locked)))
          @ [UnlockByName ?name logicAppResourceName]"
    using assms
    by (simp add: resourceArmLogicAppWorkflowUpdate_def record_event_def Let_def
          split: prod.splits)
  then have "emitted meta (resourceArmLogicAppWorkflowUpdate env d meta)
             = LockByName ?name logicAppResourceName # calls
               @ [UnlockByName ?name logicAppResourceName]"
    using c(1) by (simp add: emitted_def record_event_def)
  then show ?thesis using c(2) by blast
qed

lemma Delete_emitted:
  assumes "parseAzureResourceID env (rd_Id d) = Inr rid"
  shows "emitted meta (resourceArmLogicAppWorkflowDelete env d meta)
         = [LockByName (index_string (Path rid) ''workflows'') logicAppResourceName,
            DeleteCall (ResourceGroup rid) (index_string (Path rid) ''workflows''),
            UnlockByName (index_string (Path rid) ''workflows'') logicAppResourceName]"
  using assms
  by (auto simp: emitted_def resourceArmLogicAppWorkflowDelete_def delete_locked_def
        client_Delete_def record_event_def Let_def split: prod.splits option.splits)

lemma malformed_id_emits_nothing:
  assumes "parseAzureResourceID env (rd_Id d) = Inl e"
  shows "emitted meta (resourceArmLogicAppWorkflowUpdate env d meta) = []"
    and "emitted meta (resourceArmLogicAppWorkflowDelete env d meta) = []"
  using assms
  by (simp_all add: emitted_def resourceArmLogicAppWorkflowUpdate_def
        resourceArmLogicAppWorkflowDelete_def)

lemma locked_section_first:
  assumes "list_all is_remote_call c1"
    and "zs \<in> shuffles (c1 @ [UnlockByName n r]) (LockByName n r # rest)"
    and "mutex_admissible [(n, r)] zs"
  shows "zs = c1 @ [UnlockByName n r] @ LockByName n r # rest"
  using assms
proof (induction c1 arbitrary: zs)
  case Nil
  then show ?case by auto
next
  case (Cons e c1)
  from Cons.prems(2) consider
      zs' where "zs = e # zs'" "zs' \<in> shuffles (c1 @ [UnlockByName n r]) (LockByName n r # rest)"
    | zs' where "zs = LockByName n r # zs'"
    by auto
  then show ?case
  proof cases
    case 1
    have "mutex_admissible [(n, r)] zs'"
      using Cons.prems(1,3) 1(1) by (cases e) auto
    then show ?thesis
      using Cons.IH [of zs'] Cons.prems(1) 1 by simp
  next
    case 2
    then show ?thesis using Cons.prems(3) by simp
  qed
qed

lemma locked_sections_serial:
  assumes "list_all is_remote_call c1" and "list_all is_remote_call c2"
    and "zs \<in> shuffles (LockByName n r # c1 @ [UnlockByName n r])
                        (LockByName n r # c2 @ [UnlockByName n r])"
    and "mutex_admissible [] zs"
  shows "zs = (LockByName n r # c1 @ [UnlockByName n r]) @ (LockByName n r # c2 @ [UnlockByName n r])
       \<or> zs = (LockByName n r # c2 @ [UnlockByName n r]) @ (LockByName n r # c1 @ [UnlockByName n r])"
proof -
  let ?t1 = "LockByName n r # c1 @ [UnlockByName n r]"
  let ?t2 = "LockByName n r # c2 @ [UnlockByName n r]"
  from assms(3) consider
      zs' where "zs = LockByName n r # zs'" "zs' \<in> shuffles (c1 @ [UnlockByName n r]) ?t2"
    | zs' where "zs = LockByName n r # zs'" "zs' \<in> shuffles ?t1 (c2 @ [UnlockByName n r])"
    by auto
  then show ?thesis
  proof cases
    case 1
    have "mutex_admissible [(n, r)] zs'" using assms(4) 1(1) by simp
    then have "zs' = c1 @ [UnlockByName n r] @ ?t2"
      using locked_section_first [OF assms(1) 1(2)] by simp
    then show ?thesis using 1(1) by simp
  next
    case 2
    have "mutex_admissible [(n, r)] zs'" using assms(4) 2(1) by simp
    moreover have "zs' \<in> shuffles (c2 @ [UnlockByName n r]) ?t1"
      using 2(2) by (simp add: shuffles_commutes)
    ultimately have "zs' = c2 @ [UnlockByName n r] @ ?t1"
      using locked_section_first [OF assms(2)] by simp
    then show ?thesis using 2(1) by simp
  qed
qed

text \<open>
  C9. Update and Delete on resource data whose ids parse to the same workflow name, started
  on any two states of the remote side. Whatever the outcome of Update (nil, an error or a
  panic), the events it adds to the trace are: the lock of that name taken, then remote
  calls only, then the same lock released; Delete adds the lock taken, the remote delete,
  the lock released. Every interleaving of the two sequences that the lock admits is one
  sequence followed by the other. When an id does not parse, the handler returns before the
  lock: it takes no lock and makes no remote call.
\<close>

theorem Update_Delete_serialized:
  assumes "parseAzureResourceID env (rd_Id du) = Inr ridu"
    and "parseAzureResourceID env (rd_Id dd) = Inr ridd"
    and "index_string (Path ridu) ''workflows'' = index_string (Path ridd) ''workflows''"
    and "zs \<in> shuffles (emitted mu (resourceArmLogicAppWorkflowUpdate env du mu))
                        (emitted md (resourceArmLogicAppWorkflowDelete env dd md))"
    and "mutex_admissible [] zs"
  shows "(\<exists>calls. emitted mu (resourceArmLogicAppWorkflowUpdate env du mu)
                   = LockByName (index_string (Path ridu) ''workflows'') logicAppResourceName
                     # calls
                     @ [UnlockByName (index_string (Path ridu) ''workflows'') logicAppResourceName]
                 \<and> list_all is_remote_call calls)
       \<and> emitted md (resourceArmLogicAppWorkflowDelete env dd md)
           = [LockByName (index_string (Path ridu) ''workflows'') logicAppResourceName,
              DeleteCall (ResourceGroup ridd) (index_string (Path ridu) ''workflows''),
              UnlockByName (index_string (Path ridu) ''workflows'') logicAppResourceName]
       \<and> (zs = emitted mu (resourceArmLogicAppWorkflowUpdate env du mu)
                 @ emitted md (resourceArmLogicAppWorkflowDelete env dd md)
          \<or> zs = emitted md (resourceArmLogicAppWorkflowDelete env dd md)
                 @ emitted mu (resourceArmLogicAppWorkflowUpdate env du mu))
       \<and> (\<forall>d m e. parseAzureResourceID env (rd_Id d) = Inl e \<longrightarrow>
              emitted m (resourceArmLogicAppWorkflowUpdate env d m) = []
              \<and> emitted m (resourceArmLogicAppWorkflowDelete env d m) = [])"
proof -
  let ?n = "index_string (Path ridu) ''workflows''"
  obtain calls where u: "emitted mu (resourceArmLogicAppWorkflowUpdate env du mu)
                         = LockByName ?n logicAppResourceName # calls
                           @ [UnlockByName ?n logicAppResourceName]"
    and cs: "list_all is_remote_call calls"
    using Update_emitted [OF assms(1)] by blast
  have dl: "emitted md (resourceArmLogicAppWorkflowDelete env dd md)
            = LockByName ?n logicAppResourceName # [DeleteCall (ResourceGroup ridd) ?n]
              @ [UnlockByName ?n logicAppResourceName]"
    using Delete_emitted [OF assms(2)] assms(3) by simp
  have "list_all is_remote_call [DeleteCall (ResourceGroup ridd) ?n]" by simp
  from locked_sections_serial [OF cs this] assms(4,5)
  have "zs = emitted mu (resourceArmLogicAppWorkflowUpdate env du mu)
                 @ emitted md (resourceArmLogicAppWorkflowDelete env dd md)
          \<or> zs = emitted md (resourceArmLogicAppWorkflowDelete env dd md)
                 @ emitted mu (resourceArmLogicAppWorkflowUpdate env du mu)"
    unfolding u dl by blast
  then show ?thesis
    using u cs dl malformed_id_emits_nothing [of env] by auto
qed


lemma append_in_shuffles: "xs @ ys \<in> shuffles xs ys"
  by (induction xs) (simp_all add: Cons_in_shuffles_leftI)

lemma Update_config1_emitted:
  "emitted (world_with (remote_wf1 definition1))
     (resourceArmLogicAppWorkflowUpdate fake_env config1 (world_with (remote_wf1 definition1)))
   = [LockByName ''wf1'' ''azurerm_logic_app'',
      GetCall ''rg1'' ''wf1'',
      CreateOrUpdateCall ''rg1'' ''wf1''
        \<lparr>Response = None, ID = None, Name = None, Location = Some ''westus'',
         WorkflowProperties = Some
           \<lparr>Definition = definition1,
            Parameters = [(''p1'', Some \<lparr>Type = ParameterTypeString, Value = JString ''v1''\<rparr>)],
            AccessEndpoint = None\<rparr>,
         Tags = []\<rparr>,
      GetCall ''rg1'' ''wf1'',
      UnlockByName ''wf1'' ''azurerm_logic_app'']"
  by (simp add: emitted_def resourceArmLogicAppWorkflowUpdate_def update_locked_def
        resourceArmLogicAppWorkflowRead_def read_props_def client_Get_def
        client_CreateOrUpdate_def record_event_def fake_env_def fake_parse_def fake_Get_def
        fake_CreateOrUpdate_def config1_def world_with_def remote_wf1_def resource_id1_def
        index_string_def index_jv_def definition1_def logicAppResourceName_def
        expandLogicAppWorkflowParameters_def flattenLogicAppWorkflowParameters_def
        Get_string_def Let_def)

lemma Delete_config1_emitted:
  "emitted world_empty (resourceArmLogicAppWorkflowDelete fake_env config1 world_empty)
   = [LockByName ''wf1'' ''azurerm_logic_app'', DeleteCall ''rg1'' ''wf1'',
      UnlockByName ''wf1'' ''azurerm_logic_app'']"
  by (simp add: emitted_def resourceArmLogicAppWorkflowDelete_def delete_locked_def
        client_Delete_def record_event_def fake_env_def fake_parse_def fake_Delete_def
        config1_def world_empty_def resource_id1_def index_string_def
        logicAppResourceName_def Let_def)

theorem Update_Delete_serialized_witness:
  "parseAzureResourceID fake_env (rd_Id config1) = Inr resource_id1
   \<and> emitted (world_with (remote_wf1 definition1))
         (resourceArmLogicAppWorkflowUpdate fake_env config1 (world_with (remote_wf1 definition1)))
       @ emitted world_empty (resourceArmLogicAppWorkflowDelete fake_env config1 world_empty)
       \<in> shuffles
           (emitted (world_with (remote_wf1 definition1))
              (resourceArmLogicAppWorkflowUpdate fake_env config1
                 (world_with (remote_wf1 definition1))))
           (emitted world_empty (resourceArmLogicAppWorkflowDelete fake_env config1 world_empty))
   \<and> mutex_admissible []
         (emitted (world_with (remote_wf1 definition1))
            (resourceArmLogicAppWorkflowUpdate fake_env config1 (world_with (remote_wf1 definition1)))
          @ emitted world_empty (resourceArmLogicAppWorkflowDelete fake_env config1 world_empty))
   \<and> emitted world_empty (resourceArmLogicAppWorkflowDelete fake_env config1 world_empty)
       = [LockByName ''wf1'' ''azurerm_logic_app'', DeleteCall ''rg1'' ''wf1'',
          UnlockByName ''wf1'' ''azurerm_logic_app'']
   \<and> emitted world_empty
         (resourceArmLogicAppWorkflowUpdate fake_env (config1\<lparr>rd_Id := ''wf1''\<rparr>) world_empty) = []"
proof -
  let ?tu = "emitted (world_with (remote_wf1 definition1))
               (resourceArmLogicAppWorkflowUpdate fake_env config1
                  (world_with (remote_wf1 definition1)))"
  let ?td = "emitted world_empty (resourceArmLogicAppWorkflowDelete fake_env config1 world_empty)"
  have h3: "index_string (Path resource_id1) ''workflows''
            = index_string (Path resource_id1) ''workflows''" by simp
  have h4: "?tu @ ?td \<in> shuffles ?tu ?td" by (rule append_in_shuffles)
  have h5: "mutex_admissible [] (?tu @ ?td)"
    by (simp add: Update_config1_emitted Delete_config1_emitted)
  have bad: "parseAzureResourceID fake_env (rd_Id (config1\<lparr>rd_Id := ''wf1''\<rparr>))
             = Inl (GoError ''cannot parse'')"
    by (simp add: fake_env_def fake_parse_def fake_id_def)
  note inst = Update_Delete_serialized [OF fake_parse_config1 fake_parse_config1 h3 h4 h5]
  have d: "?td = [LockByName ''wf1'' ''azurerm_logic_app'', DeleteCall ''rg1'' ''wf1'',
                  UnlockByName ''wf1'' ''azurerm_logic_app'']"
    using inst by (simp add: resource_id1_def index_string_def logicAppResourceName_def)
  have "emitted world_empty
          (resourceArmLogicAppWorkflowUpdate fake_env (config1\<lparr>rd_Id := ''wf1''\<rparr>) world_empty) = []"
    using inst bad by blast
  then show ?thesis
    using fake_parse_config1 h4 h5 d by blast
qed

end
